theory Spec2Isabelle
  imports Complex_Main "HOL-Library.Multiset"
begin

section \<open>Numbers, sides and time\<close>

text \<open>
  Prices and quantities are Go \<^verbatim>\<open>float64\<close> values. They are modelled as exact real
  numbers extended with the special values of IEEE 754 arithmetic, so that a division by
  zero is a value of the model as it is a value of the program (Go does not panic on a
  floating-point division by zero). Rounding and the sign of zero are not modelled: a
  zero divisor counts as \<open>+0\<close>.
\<close>

datatype float64 = is_Fin: Fin (val: real) | PInf | NInf | NaN

fun fneg :: "float64 \<Rightarrow> float64" where
  "fneg (Fin x) = Fin (- x)"
| "fneg PInf = NInf"
| "fneg NInf = PInf"
| "fneg NaN = NaN"

fun fadd :: "float64 \<Rightarrow> float64 \<Rightarrow> float64" where
  "fadd (Fin x) (Fin y) = Fin (x + y)"
| "fadd NaN _ = NaN"
| "fadd _ NaN = NaN"
| "fadd PInf NInf = NaN"
| "fadd NInf PInf = NaN"
| "fadd PInf _ = PInf"
| "fadd _ PInf = PInf"
| "fadd NInf _ = NInf"
| "fadd _ NInf = NInf"

definition fsub :: "float64 \<Rightarrow> float64 \<Rightarrow> float64" where
  "fsub a b = fadd a (fneg b)"

fun fscale :: "real \<Rightarrow> float64 \<Rightarrow> float64" where
  "fscale x i = (if x = 0 then NaN else if 0 < x then i else fneg i)"

fun fmul :: "float64 \<Rightarrow> float64 \<Rightarrow> float64" where
  "fmul (Fin x) (Fin y) = Fin (x * y)"
| "fmul NaN _ = NaN"
| "fmul _ NaN = NaN"
| "fmul (Fin x) i = fscale x i"
| "fmul i (Fin y) = fscale y i"
| "fmul PInf i = i"
| "fmul NInf i = fneg i"

fun fdiv :: "float64 \<Rightarrow> float64 \<Rightarrow> float64" where
  "fdiv (Fin x) (Fin y) =
     (if y \<noteq> 0 then Fin (x / y)
      else if x = 0 then NaN
      else if 0 < x then PInf else NInf)"
| "fdiv NaN _ = NaN"
| "fdiv _ NaN = NaN"
| "fdiv (Fin x) _ = Fin 0"
| "fdiv i (Fin y) = (if 0 \<le> y then i else fneg i)"
| "fdiv _ _ = NaN"

fun flt :: "float64 \<Rightarrow> float64 \<Rightarrow> bool" where
  "flt (Fin x) (Fin y) = (x < y)"
| "flt NaN _ = False"
| "flt _ NaN = False"
| "flt NInf NInf = False"
| "flt NInf _ = True"
| "flt _ NInf = False"
| "flt PInf _ = False"
| "flt _ PInf = True"

fun feq :: "float64 \<Rightarrow> float64 \<Rightarrow> bool" where
  "feq NaN _ = False"
| "feq _ NaN = False"
| "feq a b = (a = b)"

definition fle :: "float64 \<Rightarrow> float64 \<Rightarrow> bool" where
  "fle a b = (flt a b \<or> feq a b)"

definition fgt :: "float64 \<Rightarrow> float64 \<Rightarrow> bool" where
  "fgt a b = flt b a"

definition fge :: "float64 \<Rightarrow> float64 \<Rightarrow> bool" where
  "fge a b = fle b a"

text \<open>The zero value of a \<^verbatim>\<open>float64\<close> variable, and the sum a loop accumulates from it.\<close>

definition fzero :: float64 where
  "fzero = Fin 0"

definition fsum :: "float64 list \<Rightarrow> float64" where
  "fsum xs = foldl fadd fzero xs"

text \<open>\<^verbatim>\<open>type Side string\<close> with the two constants of \<^verbatim>\<open>types.go\<close>.\<close>

datatype Side = SideBuy | SideSell

text \<open>An instant (\<^verbatim>\<open>time.Time\<close>), in nanoseconds.\<close>

type_synonym time = int

section \<open>Data model (\<^verbatim>\<open>internal/types/types.go\<close>)\<close>

record OrderBookEntry =
  Price :: float64
  Quantity :: float64

record OrderBookSnapshot =
  Symbol :: string
  Timestamp :: time
  Bids :: "OrderBookEntry list"
  Asks :: "OrderBookEntry list"

record TradeSignal =
  sig_Symbol :: string
  sig_Side :: Side
  sig_Price :: float64
  sig_Quantity :: float64
  sig_Timestamp :: time

record Execution =
  exe_Symbol :: string
  exe_Side :: Side
  exe_Price :: float64
  exe_Quantity :: float64
  exe_Timestamp :: time

section \<open>The order book (\<^verbatim>\<open>internal/orderbook/orderbook.go\<close>)\<close>

text \<open>
  The mutex of the Go struct is left out: every method below runs start to finish under
  the lock, so a sequential reading of each method is what the lock guarantees.
\<close>

record OrderBook =
  symbol :: string
  bids :: "OrderBookEntry list"
  asks :: "OrderBookEntry list"
  lastUpdated :: time

definition New :: OrderBook where
  "New = \<lparr>symbol = [], bids = [], asks = [], lastUpdated = 0\<rparr>"

subsection \<open>GetFillPrice\<close>

text \<open>
  One loop of \<^verbatim>\<open>GetFillPrice\<close>, over the asks or over the bids: the state is
  \<^verbatim>\<open>(remainingQty, totalCost)\<close>, and the loop breaks as soon as nothing remains.
\<close>

fun fill_walk :: "OrderBookEntry list \<Rightarrow> float64 \<Rightarrow> float64 \<Rightarrow> float64 \<times> float64" where
  "fill_walk [] remainingQty totalCost = (remainingQty, totalCost)"
| "fill_walk (lvl # rest) remainingQty totalCost =
     (if fle remainingQty (Fin 0) then (remainingQty, totalCost)
      else
        let fillQty = (if fgt (Quantity lvl) remainingQty then remainingQty else Quantity lvl)
        in fill_walk rest (fsub remainingQty fillQty) (fadd totalCost (fmul fillQty (Price lvl))))"

definition GetFillPrice :: "OrderBook \<Rightarrow> Side \<Rightarrow> float64 \<Rightarrow> float64 \<times> bool" where
  "GetFillPrice ob side quantity =
     (let (remainingQty, totalCost) =
            (if side = SideBuy then fill_walk (asks ob) quantity fzero
             else fill_walk (bids ob) quantity fzero)
      in if fgt remainingQty (Fin 0) then (Fin 0, False)
         else (fdiv totalCost quantity, True))"

subsection \<open>Update\<close>

text \<open>
  \<^verbatim>\<open>sort.Slice\<close> is the Go standard library's and is not stable. On slices of at
  most 12 elements it runs the insertion sort below, which moves each element left while
  \<^verbatim>\<open>less\<close> holds against its predecessor; the accumulator is the sorted prefix, last
  element first. On longer slices it runs a quicksort, whose result can differ only in
  the order of elements that \<^verbatim>\<open>less\<close> does not separate. What is proved of \<open>Update\<close>
  below holds for every such order.
\<close>

fun insert_back :: "('a \<Rightarrow> 'a \<Rightarrow> bool) \<Rightarrow> 'a \<Rightarrow> 'a list \<Rightarrow> 'a list" where
  "insert_back lessf x [] = [x]"
| "insert_back lessf x (y # ys) =
     (if lessf x y then y # insert_back lessf x ys else x # y # ys)"

definition sort_Slice :: "('a \<Rightarrow> 'a \<Rightarrow> bool) \<Rightarrow> 'a list \<Rightarrow> 'a list" where
  "sort_Slice lessf xs = rev (foldl (\<lambda>acc x. insert_back lessf x acc) [] xs)"

definition Update :: "OrderBook \<Rightarrow> OrderBookSnapshot \<Rightarrow> OrderBook" where
  "Update ob snapshot =
     ob\<lparr>symbol := Symbol snapshot,
        lastUpdated := Timestamp snapshot,
        bids := sort_Slice (\<lambda>a b. fgt (Price a) (Price b)) (Bids snapshot),
        asks := sort_Slice (\<lambda>a b. flt (Price a) (Price b)) (Asks snapshot)\<rparr>"

subsection \<open>GetCumulativeDepth\<close>

definition GetCumulativeDepth :: "OrderBook \<Rightarrow> Side \<Rightarrow> float64 \<Rightarrow> float64" where
  "GetCumulativeDepth ob side priceLevel =
     (if side = SideBuy
      then foldl (\<lambda>depth bid. if fge (Price bid) priceLevel
                               then fadd depth (Quantity bid) else depth) fzero (bids ob)
      else foldl (\<lambda>depth ask. if fle (Price ask) priceLevel
                               then fadd depth (Quantity ask) else depth) fzero (asks ob))"

subsection \<open>CanFill\<close>

text \<open>
  One loop of \<^verbatim>\<open>CanFill\<close>; \<open>inRange\<close> is the price test of the loop
  (\<^verbatim>\<open>ask.Price <= price\<close> or \<^verbatim>\<open>bid.Price >= price\<close>). The loop returns true from
  inside the price test only; falling off the end returns false.
\<close>

fun can_fill_walk ::
  "(OrderBookEntry \<Rightarrow> bool) \<Rightarrow> OrderBookEntry list \<Rightarrow> float64 \<Rightarrow> float64 \<Rightarrow> bool" where
  "can_fill_walk inRange [] quantity availableQty = False"
| "can_fill_walk inRange (lvl # rest) quantity availableQty =
     (if inRange lvl then
        (let availableQty' = fadd availableQty (Quantity lvl)
         in if fge availableQty' quantity then True
            else can_fill_walk inRange rest quantity availableQty')
      else can_fill_walk inRange rest quantity availableQty)"

definition CanFill :: "OrderBook \<Rightarrow> Side \<Rightarrow> float64 \<Rightarrow> float64 \<Rightarrow> bool" where
  "CanFill ob side price quantity =
     (if side = SideBuy
      then can_fill_walk (\<lambda>ask. fle (Price ask) price) (asks ob) quantity fzero
      else can_fill_walk (\<lambda>bid. fge (Price bid) price) (bids ob) quantity fzero)"

section \<open>The broker (\<^verbatim>\<open>internal/broker\<close>)\<close>

text \<open>
  The broker holds a pointer to the order book, so a method it calls could change the
  book. The calls are therefore threaded through the book: each returns the book it
  leaves behind. \<^verbatim>\<open>GetFillPrice\<close> and \<^verbatim>\<open>CanFill\<close> assign to no field.
\<close>

definition call_GetFillPrice ::
  "Side \<Rightarrow> float64 \<Rightarrow> OrderBook \<Rightarrow> (float64 \<times> bool) \<times> OrderBook" where
  "call_GetFillPrice side quantity ob = (GetFillPrice ob side quantity, ob)"

definition call_CanFill ::
  "Side \<Rightarrow> float64 \<Rightarrow> float64 \<Rightarrow> OrderBook \<Rightarrow> bool \<times> OrderBook" where
  "call_CanFill side price quantity ob = (CanFill ob side price quantity, ob)"

text \<open>The tail of \<^verbatim>\<open>executeOrder\<close>, from the last \<^verbatim>\<open>if !canFill\<close> on.\<close>

definition create_execution ::
  "TradeSignal \<Rightarrow> float64 \<Rightarrow> bool \<Rightarrow> time \<Rightarrow> OrderBook \<Rightarrow> Execution option \<times> OrderBook" where
  "create_execution signal execPrice canFill now ob =
     (if \<not> canFill then (None, ob)
      else (Some \<lparr>exe_Symbol = sig_Symbol signal,
                  exe_Side = sig_Side signal,
                  exe_Price = execPrice,
                  exe_Quantity = sig_Quantity signal,
                  exe_Timestamp = now\<rparr>, ob))"

text \<open>\<open>now\<close> is the reading of \<^verbatim>\<open>time.Now()\<close>; \<open>None\<close> is the nil execution.\<close>

definition executeOrder ::
  "OrderBook \<Rightarrow> TradeSignal \<Rightarrow> time \<Rightarrow> Execution option \<times> OrderBook" where
  "executeOrder ob signal now =
     (if feq (sig_Price signal) (Fin 0) then
        (let ((execPrice, canFill), ob1) =
               call_GetFillPrice (sig_Side signal) (sig_Quantity signal) ob
         in if \<not> canFill then (None, ob1)
            else create_execution signal execPrice canFill now ob1)
      else
        (let execPrice = sig_Price signal;
             (canFill, ob1) =
               call_CanFill (sig_Side signal) (sig_Price signal) (sig_Quantity signal) ob
         in if \<not> canFill then
              (let ((bestPrice, canFillAtBest), ob2) =
                     call_GetFillPrice (sig_Side signal) (sig_Quantity signal) ob1
               in if canFillAtBest then create_execution signal bestPrice True now ob2
                  else (None, ob2))
            else create_execution signal execPrice canFill now ob1))"

section \<open>Channels\<close>

text \<open>
  A buffered Go channel is its buffer and its capacity. A plain send \<^verbatim>\<open>ch <- v\<close> on a
  full buffer blocks the sender; a send inside \<^verbatim>\<open>select\<close> with a \<^verbatim>\<open>default\<close> branch
  takes the default branch instead. Every channel below has a positive capacity, so a
  send can proceed exactly when the buffer has room.
\<close>

record 'a chan =
  buf :: "'a list"
  cap :: nat

datatype send_result = Sent | Dropped | Blocked



definition select_send_default :: "'a chan \<Rightarrow> 'a \<Rightarrow> send_result \<times> 'a chan" where
  "select_send_default ch v =
     (if length (buf ch) < cap ch then (Sent, ch\<lparr>buf := buf ch @ [v]\<rparr>) else (Dropped, ch))"

section \<open>The send sites of the pipeline\<close>

datatype error = errorString string


text \<open>\<^verbatim>\<open>Broker.Start\<close>: the body of the loop over the signals.\<close>

definition Broker_handle ::
  "TradeSignal \<Rightarrow> time \<Rightarrow> OrderBook \<times> Execution chan
     \<Rightarrow> send_result option \<times> OrderBook \<times> Execution chan" where
  "Broker_handle signal now st =
     (let (ob, executions) = st;
          (execution, ob') = executeOrder ob signal now
      in case execution of
           None \<Rightarrow> (None, ob', executions)
         | Some e \<Rightarrow>
             (let (r, executions') = select_send_default executions e
              in (Some r, ob', executions')))"






section \<open>Sessions (\<^verbatim>\<open>main.go\<close>)\<close>

record SessionConfig =
  EntryPrice :: float64
  OrderSize :: float64
  StopLoss :: float64
  TakeProfit :: float64
  LiquidityThresh :: float64
  MaxHoldTime :: time
  OutputFile :: string

record SessionResults =
  TradeLog :: "Execution list"
  TotalPnL :: float64
  TotalTrades :: nat
  Duration :: time
  Success :: bool
  Error :: "error option"

record TradingSession =
  ID :: string
  OrderbookFile :: string
  Config :: SessionConfig
  Results :: SessionResults




subsection \<open>Profit and loss, and the session result\<close>



subsection \<open>The pipeline of one session\<close>








subsection \<open>The coordinator\<close>

text \<open>The three sessions \<^verbatim>\<open>runConcurrentSessions\<close> defines.\<close>

definition no_results :: SessionResults where
  "no_results = \<lparr>TradeLog = [], TotalPnL = Fin 0, TotalTrades = 0, Duration = 0,
                  Success = False, Error = None\<rparr>"

definition sessions :: "TradingSession list" where
  "sessions =
     [\<lparr>ID = ''BTC-Aggressive'', OrderbookFile = ''data/sample1.json'',
       Config = \<lparr>EntryPrice = Fin 0, OrderSize = Fin 2.5, StopLoss = Fin 0.015,
                 TakeProfit = Fin 0.04, LiquidityThresh = Fin 800,
                 MaxHoldTime = 8 * 1000000000, OutputFile = ''concurrent_btc_trades.csv''\<rparr>,
       Results = no_results\<rparr>,
      \<lparr>ID = ''ETH-Conservative'', OrderbookFile = ''data/sample2.json'',
       Config = \<lparr>EntryPrice = Fin 3000, OrderSize = Fin 5.0, StopLoss = Fin 0.01,
                 TakeProfit = Fin 0.025, LiquidityThresh = Fin 1200,
                 MaxHoldTime = 12 * 1000000000, OutputFile = ''concurrent_eth_trades.csv''\<rparr>,
       Results = no_results\<rparr>,
      \<lparr>ID = ''ADA-HighFreq'', OrderbookFile = ''data/sample3.json'',
       Config = \<lparr>EntryPrice = Fin 0, OrderSize = Fin 8000, StopLoss = Fin 0.005,
                 TakeProfit = Fin 0.015, LiquidityThresh = Fin 2000,
                 MaxHoldTime = 6 * 1000000000, OutputFile = ''concurrent_ada_trades.csv''\<rparr>,
       Results = no_results\<rparr>]"



section \<open>Specification-side notions\<close>

text \<open>The real numbers behind a level with finite price and quantity.\<close>

definition price :: "OrderBookEntry \<Rightarrow> real" where
  "price l = val (Price l)"

definition qty :: "OrderBookEntry \<Rightarrow> real" where
  "qty l = val (Quantity l)"

definition prices_finite :: "OrderBookEntry list \<Rightarrow> bool" where
  "prices_finite ls = list_all (\<lambda>l. is_Fin (Price l)) ls"


definition ascending :: "OrderBookEntry list \<Rightarrow> bool" where
  "ascending ls = sorted_wrt (\<lambda>a b. price a \<le> price b) ls"

definition descending :: "OrderBookEntry list \<Rightarrow> bool" where
  "descending ls = sorted_wrt (\<lambda>a b. price b \<le> price a) ls"

definition strictly_ascending :: "OrderBookEntry list \<Rightarrow> bool" where
  "strictly_ascending ls = sorted_wrt (\<lambda>a b. price a < price b) ls"

definition strictly_descending :: "OrderBookEntry list \<Rightarrow> bool" where
  "strictly_descending ls = sorted_wrt (\<lambda>a b. price b < price a) ls"


subsection \<open>The fill price in the specification's words\<close>

text \<open>
  The quantity a walk for \<open>q\<close> units takes from level \<open>i\<close> of \<open>ls\<close>: what is still
  missing after the levels before it, up to the quantity of the level. The cost of the
  walk is the sum of price times quantity taken, and the fill price is that cost
  divided by \<open>q\<close>. The walk goes over the cheapest asks first for a buy and over the
  dearest bids first for a sell; nothing is fillable when the levels hold less than \<open>q\<close>.
\<close>

definition total_quantity :: "OrderBookEntry list \<Rightarrow> real" where
  "total_quantity ls = (\<Sum>l\<leftarrow>ls. qty l)"

definition consumed :: "OrderBookEntry list \<Rightarrow> real \<Rightarrow> nat \<Rightarrow> real" where
  "consumed ls q i = min (qty (ls ! i)) (max 0 (q - total_quantity (take i ls)))"

definition walk_cost :: "OrderBookEntry list \<Rightarrow> real \<Rightarrow> real" where
  "walk_cost ls q = (\<Sum>i<length ls. price (ls ! i) * consumed ls q i)"


subsection \<open>The matching algorithm in the specification's words\<close>

text \<open>
  A market order (limit price 0) fills at the fill price or is rejected. A limit order
  fills at its limit when the book can fill it there; otherwise it is tried as a market
  order. A fill carries the computed price, the requested quantity and the current time.
\<close>

definition execute_spec :: "OrderBook \<Rightarrow> TradeSignal \<Rightarrow> time \<Rightarrow> Execution option" where
  "execute_spec ob intent now =
     (let fill = (\<lambda>p. Some \<lparr>exe_Symbol = sig_Symbol intent, exe_Side = sig_Side intent,
                             exe_Price = p, exe_Quantity = sig_Quantity intent,
                             exe_Timestamp = now\<rparr>);
          (marketPrice, fillable) = GetFillPrice ob (sig_Side intent) (sig_Quantity intent);
          market = (if fillable then fill marketPrice else None)
      in if feq (sig_Price intent) (Fin 0) then market
         else if CanFill ob (sig_Side intent) (sig_Price intent) (sig_Quantity intent)
              then fill (sig_Price intent)
              else market)"

subsection \<open>Notional, full queues, idle sessions\<close>


definition full :: "'a chan \<Rightarrow> bool" where
  "full ch = (cap ch \<le> length (buf ch))"


subsection \<open>Example data\<close>

definition level :: "real \<Rightarrow> real \<Rightarrow> OrderBookEntry" where
  "level p q = \<lparr>Price = Fin p, Quantity = Fin q\<rparr>"

text \<open>The book of the specification's fill-price example, given unsorted.\<close>

definition example_snapshot :: OrderBookSnapshot where
  "example_snapshot =
     \<lparr>Symbol = ''TESTCOIN'', Timestamp = 0,
      Bids = [level 99.5 2, level 100 1, level 99 1.5],
      Asks = [level 101.5 2, level 102 1.5, level 101 1]\<rparr>"

definition example_book :: OrderBook where
  "example_book = Update New example_snapshot"

definition duplicate_snapshot :: OrderBookSnapshot where
  "duplicate_snapshot =
     \<lparr>Symbol = ''TESTCOIN'', Timestamp = 0,
      Bids = [level 100 1, level 100 2],
      Asks = [level 101 1, level 101 3]\<rparr>"


text \<open>A queue filled to its capacity, a market buy and the fills of the example runs.\<close>

definition filled :: "nat \<Rightarrow> 'a \<Rightarrow> 'a chan" where
  "filled n v = \<lparr>buf = replicate n v, cap = n\<rparr>"









section \<open>Facts about the number model\<close>

lemma fle_Fin [simp]: "fle (Fin x) (Fin y) = (x \<le> y)"
  by (auto simp: fle_def)

lemma fgt_Fin [simp]: "fgt (Fin x) (Fin y) = (y < x)"
  by (simp add: fgt_def)

lemma fge_Fin [simp]: "fge (Fin x) (Fin y) = (y \<le> x)"
  by (simp add: fge_def)

lemma fsub_Fin [simp]: "fsub (Fin x) (Fin y) = Fin (x - y)"
  by (simp add: fsub_def)


lemma level_simps [simp]:
  "Price (level p q) = Fin p" "Quantity (level p q) = Fin q"
  "price (level p q) = p" "qty (level p q) = q"
  by (simp_all add: level_def price_def qty_def)

section \<open>The example books, evaluated\<close>

lemma example_book_eq:
  "example_book =
     \<lparr>symbol = ''TESTCOIN'',
      bids = [level 100 1, level 99.5 2, level 99 1.5],
      asks = [level 101 1, level 101.5 2, level 102 1.5],
      lastUpdated = 0\<rparr>"
  by (simp add: example_book_def example_snapshot_def Update_def New_def sort_Slice_def fgt_def)


lemma duplicate_book_eq:
  "Update New duplicate_snapshot =
     \<lparr>symbol = ''TESTCOIN'',
      bids = [level 100 1, level 100 2],
      asks = [level 101 1, level 101 3],
      lastUpdated = 0\<rparr>"
  by (simp add: duplicate_snapshot_def Update_def New_def sort_Slice_def fgt_def)


section \<open>A zero quantity\<close>

lemma fill_walk_zero: "fill_walk ls (Fin 0) c = (Fin 0, c)"
  by (cases ls) simp_all

text \<open>
  C9. \<^verbatim>\<open>GetFillPrice\<close> with quantity 0 does not report "not fillable": on every book,
  the empty one included, and for either side it returns \<open>ok = True\<close> with the quotient
  of total cost 0 by quantity 0, which is not a number.
\<close>

theorem GetFillPrice_zero_quantity:
  "GetFillPrice ob side (Fin 0) = (fdiv (Fin 0) (Fin 0), True)
   \<and> fdiv (Fin 0) (Fin 0) = NaN
   \<and> GetFillPrice New side (Fin 0) = (NaN, True)"
  by (simp add: GetFillPrice_def fill_walk_zero fzero_def)

section \<open>The fill price\<close>

lemma total_quantity_simps [simp]:
  "total_quantity [] = 0" "total_quantity (l # ls) = qty l + total_quantity ls"
  by (simp_all add: total_quantity_def)

lemma walk_cost_Nil [simp]: "walk_cost [] q = 0"
  by (simp add: walk_cost_def)









section \<open>CanFill and the cumulative depth\<close>





lemma depth_foldl:
  "foldl (\<lambda>depth l. if P l then fadd depth (Quantity l) else depth) a ls
     = foldl fadd a (map Quantity (filter P ls))"
  by (induction ls arbitrary: a) simp_all

text \<open>
  C10. \<^verbatim>\<open>GetCumulativeDepth\<close> for \<open>SideBuy\<close> sums the quantities of the bids at prices
  \<open>\<ge> p\<close> and for \<open>SideSell\<close> those of the asks at prices \<open>\<le> p\<close>, and does not look
  at the other side of the book; \<^verbatim>\<open>CanFill\<close> for \<open>SideBuy\<close> walks the asks and for
  \<open>SideSell\<close> the bids, and does not look at the other side either. The side argument
  names the same side of the book in the first and the opposite side in the second.
\<close>

theorem GetCumulativeDepth_same_side:
  "GetCumulativeDepth ob SideBuy p = fsum (map Quantity (filter (\<lambda>bid. fge (Price bid) p) (bids ob)))
   \<and> GetCumulativeDepth ob SideSell p = fsum (map Quantity (filter (\<lambda>ask. fle (Price ask) p) (asks ob)))
   \<and> GetCumulativeDepth (ob\<lparr>asks := xs\<rparr>) SideBuy p = GetCumulativeDepth ob SideBuy p
   \<and> GetCumulativeDepth (ob\<lparr>bids := xs\<rparr>) SideSell p = GetCumulativeDepth ob SideSell p
   \<and> CanFill ob SideBuy p q = can_fill_walk (\<lambda>ask. fle (Price ask) p) (asks ob) q fzero
   \<and> CanFill ob SideSell p q = can_fill_walk (\<lambda>bid. fge (Price bid) p) (bids ob) q fzero
   \<and> CanFill (ob\<lparr>bids := xs\<rparr>) SideBuy p q = CanFill ob SideBuy p q
   \<and> CanFill (ob\<lparr>asks := xs\<rparr>) SideSell p q = CanFill ob SideSell p q"
  by (simp add: GetCumulativeDepth_def CanFill_def fsum_def depth_foldl)

section \<open>Update keeps the book sorted\<close>

lemma set_insert_back [simp]: "set (insert_back lessf x ys) = insert x (set ys)"
  by (induction ys) auto

lemma mset_insert_back [simp]: "mset (insert_back lessf x ys) = add_mset x (mset ys)"
  by (induction ys) auto

lemma mset_foldl_insert_back:
  "mset (foldl (\<lambda>acc x. insert_back lessf x acc) acc xs) = mset acc + mset xs"
  by (induction xs arbitrary: acc) auto

lemma mset_sort_Slice [simp]: "mset (sort_Slice lessf xs) = mset xs"
  by (simp add: sort_Slice_def mset_foldl_insert_back)

lemma set_sort_Slice [simp]: "set (sort_Slice lessf xs) = set xs"
  using mset_sort_Slice[of lessf xs] by (metis set_mset_mset)

lemma insert_back_sorted:
  fixes k :: "'a \<Rightarrow> real"
  assumes "\<And>a b. a \<in> S \<Longrightarrow> b \<in> S \<Longrightarrow> lessf a b = (k a < k b)"
    and "x \<in> S" and "set ys \<subseteq> S"
    and "sorted_wrt (\<lambda>a b. k b \<le> k a) ys"
  shows "sorted_wrt (\<lambda>a b. k b \<le> k a) (insert_back lessf x ys)"
  using assms(3,4)
proof (induction ys)
  case Nil
  then show ?case by simp
next
  case (Cons y ys)
  then have y: "y \<in> S" and ys: "set ys \<subseteq> S" by auto
  show ?case
  proof (cases "lessf x y")
    case True
    then have "k x < k y" using assms(1)[OF assms(2) y] by simp
    with True Cons ys show ?thesis by auto
  next
    case False
    then have "k y \<le> k x" using assms(1)[OF assms(2) y] by simp
    with False Cons.prems show ?thesis by fastforce
  qed
qed

lemma foldl_insert_back_sorted:
  fixes k :: "'a \<Rightarrow> real"
  assumes "\<And>a b. a \<in> S \<Longrightarrow> b \<in> S \<Longrightarrow> lessf a b = (k a < k b)"
  shows "set xs \<subseteq> S \<Longrightarrow> set acc \<subseteq> S \<Longrightarrow> sorted_wrt (\<lambda>a b. k b \<le> k a) acc \<Longrightarrow>
         sorted_wrt (\<lambda>a b. k b \<le> k a) (foldl (\<lambda>acc x. insert_back lessf x acc) acc xs)"
proof (induction xs arbitrary: acc)
  case Nil
  then show ?case by simp
next
  case (Cons x xs)
  have "sorted_wrt (\<lambda>a b. k b \<le> k a) (insert_back lessf x acc)"
    using insert_back_sorted[of S lessf k x acc] assms Cons.prems by auto
  moreover have "set (insert_back lessf x acc) \<subseteq> S" using Cons.prems by auto
  ultimately show ?case using Cons.IH[of "insert_back lessf x acc"] Cons.prems by simp
qed

lemma sort_Slice_sorted:
  fixes k :: "'a \<Rightarrow> real"
  assumes "\<And>a b. a \<in> set xs \<Longrightarrow> b \<in> set xs \<Longrightarrow> lessf a b = (k a < k b)"
  shows "sorted_wrt (\<lambda>a b. k a \<le> k b) (sort_Slice lessf xs)"
proof -
  have "sorted_wrt (\<lambda>a b. k b \<le> k a) (foldl (\<lambda>acc x. insert_back lessf x acc) [] xs)"
    using foldl_insert_back_sorted[of "set xs" lessf k xs "[]"] assms by simp
  then show ?thesis
    by (simp add: sort_Slice_def sorted_wrt_rev)
qed

lemma flt_price:
  "prices_finite ls \<Longrightarrow> a \<in> set ls \<Longrightarrow> b \<in> set ls \<Longrightarrow> flt (Price a) (Price b) = (price a < price b)"
  by (cases "Price a"; cases "Price b") (auto simp: prices_finite_def list_all_iff price_def)

lemma sorted_wrt_strict:
  fixes k :: "'a \<Rightarrow> real"
  shows "sorted_wrt (\<lambda>a b. k a \<le> k b) ys \<Longrightarrow> distinct (map k ys) \<Longrightarrow> sorted_wrt (\<lambda>a b. k a < k b) ys"
  by (induction ys) (auto simp: less_le)

lemma distinct_map_sort_Slice:
  "distinct (map k (sort_Slice lessf xs)) = distinct (map k xs)"
proof -
  have "mset (map k (sort_Slice lessf xs)) = mset (map k xs)" by simp
  then show ?thesis by (rule mset_eq_imp_distinct_iff)
qed

text \<open>
  C4, as amended. For every snapshot with finite prices, after \<^verbatim>\<open>Update\<close> the stored
  bids are descending and the stored asks ascending by price, each side holds the levels
  of the snapshot, and a side is strictly ordered when its prices in the snapshot are
  pairwise distinct.
\<close>

theorem Update_sorted:
  assumes "prices_finite (Bids snapshot)" and "prices_finite (Asks snapshot)"
  shows "descending (bids (Update ob snapshot)) \<and> ascending (asks (Update ob snapshot))
       \<and> mset (bids (Update ob snapshot)) = mset (Bids snapshot)
       \<and> mset (asks (Update ob snapshot)) = mset (Asks snapshot)
       \<and> (distinct (map price (Bids snapshot)) \<longrightarrow> strictly_descending (bids (Update ob snapshot)))
       \<and> (distinct (map price (Asks snapshot)) \<longrightarrow> strictly_ascending (asks (Update ob snapshot)))"
proof -
  let ?bs = "sort_Slice (\<lambda>a b. fgt (Price a) (Price b)) (Bids snapshot)"
  let ?as = "sort_Slice (\<lambda>a b. flt (Price a) (Price b)) (Asks snapshot)"
  have b: "sorted_wrt (\<lambda>a b. - price a \<le> - price b) ?bs"
    by (rule sort_Slice_sorted) (simp add: fgt_def flt_price[OF assms(1)])
  have a: "sorted_wrt (\<lambda>a b. price a \<le> price b) ?as"
    by (rule sort_Slice_sorted) (simp add: flt_price[OF assms(2)])
  have bd: "distinct (map price (Bids snapshot)) \<Longrightarrow> sorted_wrt (\<lambda>a b. price b < price a) ?bs"
  proof -
    assume "distinct (map price (Bids snapshot))"
    then have "distinct (map (\<lambda>l. - price l) (Bids snapshot))"
      by (simp add: distinct_map inj_on_def)
    then have "distinct (map (\<lambda>l. - price l) ?bs)"
      by (simp only: distinct_map_sort_Slice)
    from sorted_wrt_strict[OF b this] show ?thesis by simp
  qed
  have ad: "distinct (map price (Asks snapshot)) \<Longrightarrow> sorted_wrt (\<lambda>a b. price a < price b) ?as"
    using sorted_wrt_strict[OF a] by (simp add: distinct_map_sort_Slice)
  show ?thesis
    using a b ad bd
    by (simp add: Update_def descending_def ascending_def strictly_descending_def
        strictly_ascending_def)
qed

theorem Update_sorted_witness:
  "prices_finite (Bids example_snapshot) \<and> prices_finite (Asks example_snapshot)
   \<and> distinct (map price (Bids example_snapshot)) \<and> distinct (map price (Asks example_snapshot))
   \<and> strictly_descending (bids (Update New example_snapshot))
   \<and> strictly_ascending (asks (Update New example_snapshot))
   \<and> map price (bids (Update New example_snapshot)) = [100, 99.5, 99]
   \<and> map price (asks (Update New example_snapshot)) = [101, 101.5, 102]"
proof -
  have fin: "prices_finite (Bids example_snapshot)" "prices_finite (Asks example_snapshot)"
    by (simp_all add: example_snapshot_def prices_finite_def)
  have d: "distinct (map price (Bids example_snapshot))" "distinct (map price (Asks example_snapshot))"
    by (simp_all add: example_snapshot_def)
  from Update_sorted[OF fin, of New] fin d example_book_eq show ?thesis
    by (simp add: example_book_def)
qed

text \<open>
  C4 as stated fails on a snapshot with two bids at 100 and two asks at 101: both
  levels are stored, so neither side is strictly ordered.
\<close>

theorem Update_duplicate_prices_counterexample:
  "\<not> strictly_descending (bids (Update New duplicate_snapshot))
   \<and> \<not> strictly_ascending (asks (Update New duplicate_snapshot))
   \<and> map price (bids (Update New duplicate_snapshot)) = [100, 100]
   \<and> map price (asks (Update New duplicate_snapshot)) = [101, 101]"
  by (simp add: duplicate_book_eq strictly_descending_def strictly_ascending_def)

text \<open>
  No way of ordering the levels helps: a side that holds the levels of a snapshot with
  a repeated price is not strictly ordered, whatever \<^verbatim>\<open>sort.Slice\<close> does with ties.
\<close>

lemma strict_needs_distinct_prices:
  assumes "mset ys = mset xs" and "\<not> distinct (map price xs)"
  shows "\<not> strictly_ascending ys \<and> \<not> strictly_descending ys"
proof -
  have "mset (map price ys) = mset (map price xs)" using assms(1) by simp
  then have nd: "\<not> distinct (map price ys)"
    using assms(2) mset_eq_imp_distinct_iff by blast
  have "strictly_ascending ys \<Longrightarrow> distinct (map price ys)"
    unfolding strictly_ascending_def
    by (induction ys) auto
  moreover have "strictly_descending ys \<Longrightarrow> distinct (map price ys)"
    unfolding strictly_descending_def
    by (induction ys) auto
  ultimately show ?thesis using nd by blast
qed

section \<open>The broker\<close>

text \<open>
  C2. For every trade intent \<^verbatim>\<open>executeOrder\<close> returns what the algorithm of the
  specification returns: a market order fills at the fill price or not at all; a limit
  order fills at its limit when \<^verbatim>\<open>CanFill\<close> holds, else at the fill price of a market
  order, else not at all. The result is a fill or nothing: no order is kept.
\<close>

theorem executeOrder_algorithm:
  "fst (executeOrder ob signal now) = execute_spec ob signal now"
  by (simp add: executeOrder_def execute_spec_def call_GetFillPrice_def call_CanFill_def
      create_execution_def Let_def split: prod.splits)

text \<open>
  C7. \<^verbatim>\<open>executeOrder\<close> leaves the book as it found it, whether it fills or not, so an
  order executed after it meets the same book; the book is also the same after the
  broker has handled a signal and sent the fill.
\<close>

theorem executeOrder_book_unchanged:
  "snd (executeOrder ob signal now) = ob
   \<and> executeOrder (snd (executeOrder ob signal now)) signal' now' = executeOrder ob signal' now'
   \<and> fst (snd (Broker_handle signal now (ob, executions))) = ob"
proof -
  have ob: "snd (executeOrder ob signal now) = ob"
    by (simp add: executeOrder_def call_GetFillPrice_def call_CanFill_def
        create_execution_def Let_def split: prod.splits)
  then have "fst (snd (Broker_handle signal now (ob, executions))) = ob"
    by (cases "executeOrder ob signal now")
       (simp add: Broker_handle_def split: option.splits prod.splits)
  with ob show ?thesis by simp
qed

section \<open>Profit and loss of a session\<close>




section \<open>Full queues\<close>

lemma full_filled [simp]: "full (filled n v)"
  by (simp add: full_def filled_def)





section \<open>A session whose feed fails to load\<close>










lemma length_sessions [simp]: "length sessions = 3"
  by (simp add: sessions_def)












end
